theory Spec2Isabelle
  imports Complex_Main "HOL-Library.List_Lexorder"
begin

section \<open>Python strings\<close>

text \<open>
  A Python \<open>str\<close> is a sequence of Unicode code points: a character is a natural number,
  a string a list of them, and \<open>len\<close> is \<open>length\<close>. Python compares strings
  lexicographically by code point, a proper prefix being smaller; that is the order of
  lists over \<open>nat\<close>.
\<close>

type_synonym pychar = nat
type_synonym pystr = "pychar list"

definition str :: "string \<Rightarrow> pystr" where
  "str s = map of_char s"

definition euro :: pychar where
  "euro = 8364"

definition dollar :: pychar where
  "dollar = 36"

text \<open>
  Three characters beyond ASCII whose case mappings are not one to one: the Kelvin sign
  U+212A, whose lower case is the ASCII letter \<open>k\<close>; the letter U+0149, whose title case
  is the two characters U+02BC and \<open>N\<close>; and the modifier apostrophe U+02BC itself.
\<close>

definition kelvin :: pychar where
  "kelvin = 8490"

definition napostrophe :: pychar where
  "napostrophe = 329"

definition apostrophe :: pychar where
  "apostrophe = 700"

text \<open>
  The source calls \<open>str.lower\<close>, \<open>str.capitalize\<close>, \<open>str.strip\<close>, \<open>str.isalpha\<close> and the
  classes \<open>\d\<close>, \<open>\w\<close> and \<open>\s\<close> of \<open>re\<close>, which read the Unicode character database of
  the Python runtime. The database is not part of the repository. Its entries for the
  characters \<open>tabled\<close> (ASCII, the euro sign and the three characters above) are written
  out below; the rest of it is a parameter, the record \<open>unicode\<close>, that every function of
  the program takes. A theorem about all \<open>U\<close> holds for the database of Python.

  \<open>u_isspace\<close> is \<open>str.isspace\<close>, which is also \<open>\s\<close> and what \<open>strip\<close> removes;
  \<open>u_isdigit\<close> is \<open>\d\<close>, \<open>u_isword\<close> is \<open>\w\<close>. \<open>u_lower\<close> and \<open>u_capitalize\<close> take the whole
  string, since the lower case of a character can depend on its neighbours and can be
  several characters.
\<close>

record unicode =
  u_isspace :: "pychar \<Rightarrow> bool"
  u_isalpha :: "pychar \<Rightarrow> bool"
  u_isdigit :: "pychar \<Rightarrow> bool"
  u_isword :: "pychar \<Rightarrow> bool"
  u_lower :: "pystr \<Rightarrow> pystr"
  u_capitalize :: "pystr \<Rightarrow> pystr"

definition tabled :: "pychar \<Rightarrow> bool" where
  "tabled c \<longleftrightarrow> c < 128 \<or> c = euro \<or> c = kelvin \<or> c = napostrophe \<or> c = apostrophe"

definition isupper :: "pychar \<Rightarrow> bool" where
  "isupper c \<longleftrightarrow> 65 \<le> c \<and> c \<le> 90"

definition islower :: "pychar \<Rightarrow> bool" where
  "islower c \<longleftrightarrow> 97 \<le> c \<and> c \<le> 122"

text \<open>The letters among the tabled characters.\<close>

definition letter :: "pychar \<Rightarrow> bool" where
  "letter c \<longleftrightarrow> isupper c \<or> islower c \<or> c = kelvin \<or> c = napostrophe \<or> c = apostrophe"

text \<open>\<open>str.isspace\<close> and \<open>\s\<close>; in the table: tab, LF, VT, FF, CR, U+001C..U+001F, space.\<close>

definition isspace :: "unicode \<Rightarrow> pychar \<Rightarrow> bool" where
  "isspace U c =
     (if tabled c then (9 \<le> c \<and> c \<le> 13) \<or> (28 \<le> c \<and> c \<le> 32) else u_isspace U c)"

definition isdigit :: "unicode \<Rightarrow> pychar \<Rightarrow> bool" where
  "isdigit U c = (if tabled c then 48 \<le> c \<and> c \<le> 57 else u_isdigit U c)"

definition isalpha :: "unicode \<Rightarrow> pychar \<Rightarrow> bool" where
  "isalpha U c = (if tabled c then letter c else u_isalpha U c)"

text \<open>\<open>\w\<close>: alphanumeric or underscore.\<close>

definition isword :: "unicode \<Rightarrow> pychar \<Rightarrow> bool" where
  "isword U c =
     (if tabled c then letter c \<or> (48 \<le> c \<and> c \<le> 57) \<or> c = 95 else u_isword U c)"

text \<open>The lower, upper and title case of a tabled character.\<close>

definition lower_char :: "pychar \<Rightarrow> pychar" where
  "lower_char c = (if isupper c then c + 32 else if c = kelvin then 107 else c)"

definition upper_char :: "pychar \<Rightarrow> pychar" where
  "upper_char c = (if islower c then c - 32 else c)"

definition title_char :: "pychar \<Rightarrow> pystr" where
  "title_char c = (if c = napostrophe then [apostrophe, 78] else [upper_char c])"

text \<open>\<open>s.lower()\<close>; character by character on a string of tabled characters.\<close>

definition lower :: "unicode \<Rightarrow> pystr \<Rightarrow> pystr" where
  "lower U s = (if list_all tabled s then map lower_char s else u_lower U s)"

text \<open>\<open>s.capitalize()\<close>: the first character in title case, the rest in lower case.\<close>

definition capitalize :: "unicode \<Rightarrow> pystr \<Rightarrow> pystr" where
  "capitalize U s =
     (if list_all tabled s
      then (case s of [] \<Rightarrow> [] | c # cs \<Rightarrow> title_char c @ map lower_char cs)
      else u_capitalize U s)"

text \<open>\<open>s.strip()\<close>: leading and trailing whitespace removed.\<close>

definition strip :: "unicode \<Rightarrow> pystr \<Rightarrow> pystr" where
  "strip U s = rev (dropWhile (isspace U) (rev (dropWhile (isspace U) s)))"

text \<open>\<open>s.startswith(p)\<close> and the substring test \<open>k in s\<close>.\<close>

fun startswith :: "pystr \<Rightarrow> pystr \<Rightarrow> bool" where
  "startswith s [] = True"
| "startswith [] (k # ks) = False"
| "startswith (c # cs) (k # ks) = (c = k \<and> startswith cs ks)"

fun str_in :: "pystr \<Rightarrow> pystr \<Rightarrow> bool" where
  "str_in k [] = (k = [])"
| "str_in k (c # cs) = (startswith (c # cs) k \<or> str_in k cs)"

section \<open>The line classifier of logic.py\<close>

definition clutter_keywords :: "pystr list" where
  "clutter_keywords = map str
     [''store'', ''total'', ''due'', ''debit'', ''credit'', ''cash'', ''payment'',
      ''change'', ''balance'', ''date'', ''time'', ''vat'', ''tax'', ''thank you'',
      ''subtotal'', ''discount'', ''offer'', ''feedback'', ''survey'', ''prices'',
      ''network'', ''terminal'', ''ref'', ''aid'', ''appr code'', ''st#'', ''op#'', ''te#'',
      ''tr#'', ''tc#'']"

text \<open>\<open>len(re.findall(r'\d', text))\<close>\<close>

definition digit_count :: "unicode \<Rightarrow> pystr \<Rightarrow> nat" where
  "digit_count U text = length (filter (isdigit U) text)"

text \<open>\<open>re.search(r'[^\w\s.,]', text)\<close>: some character is neither a word character, nor
  whitespace, nor a period (46), nor a comma (44).\<close>

definition is_symbol :: "unicode \<Rightarrow> pychar \<Rightarrow> bool" where
  "is_symbol U c \<longleftrightarrow> \<not> (isword U c \<or> isspace U c \<or> c = 46 \<or> c = 44)"

definition has_symbol :: "unicode \<Rightarrow> pystr \<Rightarrow> bool" where
  "has_symbol U text \<longleftrightarrow> list_ex (is_symbol U) text"

text \<open>
  \<open>re.search(r'\d+(\.\d{2})?\s*[\<euro>$]', text)\<close>, one function per part of the pattern, each
  saying whether the rest of the pattern matches at the head of its argument:
  \<open>currency_here\<close> is \<open>\s*[\<euro>$]\<close> (neither currency sign is whitespace, so skipping all the
  whitespace loses no match), \<open>decimals_here\<close> is \<open>(\.\d{2})?\s*[\<euro>$]\<close>, \<open>price_here\<close>
  is the whole pattern with its \<open>\d+\<close> taking one digit or more, and \<open>price_search\<close> tries
  every start position.
\<close>

definition currency_here :: "unicode \<Rightarrow> pystr \<Rightarrow> bool" where
  "currency_here U s =
     (case dropWhile (isspace U) s of [] \<Rightarrow> False | c # _ \<Rightarrow> c = euro \<or> c = dollar)"

definition decimals_here :: "unicode \<Rightarrow> pystr \<Rightarrow> bool" where
  "decimals_here U s =
     ((case s of
         p # d1 # d2 # r \<Rightarrow> p = 46 \<and> isdigit U d1 \<and> isdigit U d2 \<and> currency_here U r
       | _ \<Rightarrow> False)
      \<or> currency_here U s)"

fun price_here :: "unicode \<Rightarrow> pystr \<Rightarrow> bool" where
  "price_here U [] = False"
| "price_here U (c # cs) = (isdigit U c \<and> (price_here U cs \<or> decimals_here U cs))"

fun price_search :: "unicode \<Rightarrow> pystr \<Rightarrow> bool" where
  "price_search U [] = False"
| "price_search U (c # cs) = (price_here U (c # cs) \<or> price_search U cs)"

text \<open>
  The digit test of the source, \<open>len(re.findall(r'\d', text)) > len(text) * 0.6\<close>, compares
  an integer with a float. It is modelled on the rationals, with 0.6 read as 6/10. The two
  tests agree: the double nearest to 0.6 is below it by a fifth of a unit in the last
  place, so the float product is \<open>3n/5\<close> itself when that is an integer, and otherwise lies
  within a rounding error of a number at least 0.2 away from every integer.
\<close>

definition is_item_line :: "unicode \<Rightarrow> pystr \<Rightarrow> bool" where
  "is_item_line U text =
     (if list_ex (\<lambda>keyword. str_in keyword (lower U text)) clutter_keywords then False
      else if of_nat (digit_count U text) > of_nat (length text) * (6 / 10 :: rat)
              \<or> has_symbol U text then False
      else if length text < 5 \<or> length text > 50 then False
      else if price_search U text then (if list_ex (isalpha U) text then True else False)
      else True)"

section \<open>The line classifier of test.py\<close>

definition test_clutter_keywords :: "pystr list" where
  "test_clutter_keywords = map str
     [''store'', ''total'', ''due'', ''debit'', ''credit'', ''cash'', ''payment'',
      ''change'', ''balance'', ''date'', ''time'', ''vat'', ''tax'', ''thank you'']"

text \<open>\<open>re.search(r'[!@#$%^&*()_+=|<>?{}~:;"]', text)\<close>\<close>

definition test_special :: "pystr" where
  "test_special = str ''!@#$%^&*()_+=|<>?{}~:;'' @ [34]"

definition test_is_item_line :: "unicode \<Rightarrow> pystr \<Rightarrow> bool" where
  "test_is_item_line U text =
     (if list_ex (\<lambda>keyword. str_in keyword (lower U text)) test_clutter_keywords then False
      else if digit_count U text > 2 then False
      else if length text < 3 \<or> length text > 50 then False
      else if list_ex (\<lambda>c. c \<in> set test_special) text then False
      else True)"

section \<open>The item normalizer\<close>

text \<open>
  logic.py: \<open>sorted(set(item.strip().capitalize() for item in items if item.strip()))\<close>.
  The iteration order of a Python set is not fixed, but sorting its elements gives one
  list whatever that order was: the sorted list of the set.
\<close>

definition clean_extracted_items :: "unicode \<Rightarrow> pystr list \<Rightarrow> pystr list" where
  "clean_extracted_items U items =
     sorted_list_of_set
       (set (map (\<lambda>item. capitalize U (strip U item))
          (filter (\<lambda>item. strip U item \<noteq> []) items)))"

text \<open>
  test.py: a loop over the items that carries the list \<open>cleaned_items\<close> and the set
  \<open>seen_items\<close>.
\<close>

fun clean_loop :: "unicode \<Rightarrow> pystr list \<Rightarrow> pystr list \<Rightarrow> pystr set \<Rightarrow> pystr list" where
  "clean_loop U [] cleaned_items seen_items = cleaned_items"
| "clean_loop U (item # items) cleaned_items seen_items =
     (let item' = lower U (strip U item)
      in if item' \<notin> seen_items
         then clean_loop U items (cleaned_items @ [capitalize U item']) (insert item' seen_items)
         else clean_loop U items cleaned_items seen_items)"

definition test_clean_extracted_items :: "unicode \<Rightarrow> pystr list \<Rightarrow> pystr list" where
  "test_clean_extracted_items U items = clean_loop U items [] {}"

text \<open>The canonical key of an item: trimmed and lower-cased, \<open>item.strip().lower()\<close>.\<close>

definition canonical_key :: "unicode \<Rightarrow> pystr \<Rightarrow> pystr" where
  "canonical_key U s = lower U (strip U s)"

section \<open>The deposit calculator\<close>

definition bottle_keywords :: "pystr list" where
  "bottle_keywords = map str
     [''coca cola'', ''pepsi'', ''dasani'', ''bottle'', ''sprite'', ''fanta'',
      ''evian'', ''volvic'', ''nestle'', ''mineral water'', ''glass bottle'',
      ''plastic bottle'']"

definition is_bottle :: "unicode \<Rightarrow> pystr \<Rightarrow> bool" where
  "is_bottle U item \<longleftrightarrow>
     list_ex (\<lambda>keyword. str_in keyword (lower U item)) bottle_keywords"

definition bottle_count :: "unicode \<Rightarrow> pystr list \<Rightarrow> nat" where
  "bottle_count U items = length (filter (is_bottle U) items)"

definition pfand_per_bottle :: rat where
  "pfand_per_bottle = 25 / 100"

text \<open>
  \<open>round(x, 2)\<close>: the nearest multiple of 1/100, a tie going to the even one. The source
  rounds a float; the floats met here are the numbers \<open>n * 0.25\<close>, which doubles hold
  exactly, so the computation is modelled on the rationals.
\<close>

definition round_half_even :: "rat \<Rightarrow> int" where
  "round_half_even q =
     (let f = \<lfloor>q\<rfloor>; r = q - of_int f
      in if r < 1 / 2 then f else if 1 / 2 < r then f + 1 else if even f then f else f + 1)"

definition round2 :: "rat \<Rightarrow> rat" where
  "round2 x = of_int (round_half_even (x * 100)) / 100"

definition calculate_pfand :: "unicode \<Rightarrow> pystr list \<Rightarrow> rat" where
  "calculate_pfand U items = round2 (of_nat (bottle_count U items) * pfand_per_bottle)"

section \<open>The pipeline\<close>

text \<open>
  \<open>process_receipt\<close> of logic.py, from the text lines the OCR produced: each line that
  \<open>is_item_line\<close> accepts is stripped and collected, and the collection is normalized;
  \<open>process_and_display\<close> then computes the deposit of the items.
\<close>

definition raw_items :: "unicode \<Rightarrow> pystr list \<Rightarrow> pystr list" where
  "raw_items U texts = map (strip U) (filter (is_item_line U) texts)"

definition process_lines :: "unicode \<Rightarrow> pystr list \<Rightarrow> pystr list" where
  "process_lines U texts = clean_extracted_items U (raw_items U texts)"

definition receipt_result :: "unicode \<Rightarrow> pystr list \<Rightarrow> pystr list \<times> rat" where
  "receipt_result U texts =
     (let items = process_lines U texts in (items, calculate_pfand U items))"

section \<open>Auxiliary notions\<close>

text \<open>
  A database with no entry beyond the table. It stands for the database in the closed
  statements below; they are about strings of tabled characters, on which no function of
  the program consults the database.
\<close>

definition table_only :: unicode where
  "table_only =
     \<lparr>u_isspace = (\<lambda>c. False), u_isalpha = (\<lambda>c. False), u_isdigit = (\<lambda>c. False),
      u_isword = (\<lambda>c. False), u_lower = (\<lambda>s. s), u_capitalize = (\<lambda>s. s)\<rparr>"

text \<open>The strings of ASCII characters and euro signs.\<close>

definition ascii_euro :: "pychar \<Rightarrow> bool" where
  "ascii_euro c \<longleftrightarrow> c < 128 \<or> c = euro"

definition ascii_euro_str :: "pystr \<Rightarrow> bool" where
  "ascii_euro_str s \<longleftrightarrow> list_all ascii_euro s"

text \<open>\<open>capitalize\<close> on such a string.\<close>

fun capitalize_ascii :: "pystr \<Rightarrow> pystr" where
  "capitalize_ascii [] = []"
| "capitalize_ascii (c # cs) = upper_char c # map lower_char cs"

text \<open>A string that \<open>strip\<close> leaves as it is: empty, or with no whitespace at either end.\<close>

definition stripped :: "unicode \<Rightarrow> pystr \<Rightarrow> bool" where
  "stripped U s \<longleftrightarrow> s = [] \<or> (\<not> isspace U (hd s) \<and> \<not> isspace U (last s))"

text \<open>The first occurrence of every element that is not in \<open>seen\<close>, in order of appearance.\<close>

fun uniq :: "'a list \<Rightarrow> 'a set \<Rightarrow> 'a list" where
  "uniq [] seen = []"
| "uniq (x # xs) seen = (if x \<in> seen then uniq xs seen else x # uniq xs (insert x seen))"

section \<open>Evaluation\<close>

lemmas char_defs =
  str_def euro_def dollar_def kelvin_def napostrophe_def apostrophe_def tabled_def
  isupper_def islower_def letter_def isspace_def isdigit_def isalpha_def isword_def
  lower_char_def upper_char_def title_char_def lower_def capitalize_def strip_def

lemmas classifier_defs =
  is_item_line_def clutter_keywords_def digit_count_def is_symbol_def has_symbol_def
  currency_here_def decimals_here_def

lemmas pfand_defs =
  calculate_pfand_def bottle_count_def is_bottle_def bottle_keywords_def pfand_per_bottle_def
  round2_def round_half_even_def

lemma clean_extracted_items_sort:
  "clean_extracted_items U items =
     sort (remdups (map (\<lambda>item. capitalize U (strip U item))
       (filter (\<lambda>item. strip U item \<noteq> []) items)))"
  by (simp only: clean_extracted_items_def sorted_list_of_set_sort_remdups)

section \<open>Substrings and the price pattern\<close>

lemma startswith_iff: "startswith s k \<longleftrightarrow> (\<exists>ss. s = k @ ss)"
  by (induction s k rule: startswith.induct) auto

lemma str_in_iff: "str_in k s \<longleftrightarrow> (\<exists>ps ss. s = ps @ k @ ss)"
proof (induction s)
  case Nil
  then show ?case by simp
next
  case (Cons c cs)
  show ?case
  proof
    assume "str_in k (c # cs)"
    then consider "startswith (c # cs) k" | "str_in k cs" by auto
    then show "\<exists>ps ss. c # cs = ps @ k @ ss"
    proof cases
      case 1
      then obtain ss where "c # cs = k @ ss" by (auto simp: startswith_iff)
      then have "c # cs = [] @ k @ ss" by simp
      then show ?thesis by blast
    next
      case 2
      then obtain ps ss where "cs = ps @ k @ ss" using Cons.IH by blast
      then have "c # cs = (c # ps) @ k @ ss" by simp
      then show ?thesis by blast
    qed
  next
    assume "\<exists>ps ss. c # cs = ps @ k @ ss"
    then obtain ps ss where eq: "c # cs = ps @ k @ ss" by blast
    show "str_in k (c # cs)"
    proof (cases ps)
      case Nil
      then have "startswith (c # cs) k" using eq by (auto simp: startswith_iff)
      then show ?thesis by simp
    next
      case (Cons p ps')
      then have "cs = ps' @ k @ ss" using eq by simp
      then have "str_in k cs" using Cons.IH by blast
      then show ?thesis by simp
    qed
  qed
qed

lemma is_symbol_currency: "is_symbol U euro" "is_symbol U dollar"
  by (simp_all add: is_symbol_def isword_def isspace_def tabled_def letter_def isupper_def
      islower_def euro_def dollar_def kelvin_def napostrophe_def apostrophe_def)

lemma has_symbol_currency: "euro \<in> set text \<or> dollar \<in> set text \<Longrightarrow> has_symbol U text"
  unfolding has_symbol_def list_ex_iff using is_symbol_currency by blast

lemma currency_here_set: "currency_here U s \<Longrightarrow> euro \<in> set s \<or> dollar \<in> set s"
proof -
  assume a: "currency_here U s"
  then obtain c r where d: "dropWhile (isspace U) s = c # r" and c: "c = euro \<or> c = dollar"
    by (auto simp: currency_here_def split: list.splits)
  have "c \<in> set (dropWhile (isspace U) s)" using d by simp
  then have "c \<in> set s" by (rule set_dropWhileD)
  then show ?thesis using c by blast
qed

lemma decimals_here_set: "decimals_here U s \<Longrightarrow> euro \<in> set s \<or> dollar \<in> set s"
  by (auto simp: decimals_here_def split: list.splits dest: currency_here_set)

lemma price_here_set: "price_here U s \<Longrightarrow> euro \<in> set s \<or> dollar \<in> set s"
  by (induction s) (auto dest: decimals_here_set)

lemma price_search_set: "price_search U s \<Longrightarrow> euro \<in> set s \<or> dollar \<in> set s"
proof (induction s)
  case Nil
  then show ?case by simp
next
  case (Cons c cs)
  from Cons.prems consider "price_here U (c # cs)" | "price_search U cs" by auto
  then show ?case
  proof cases
    case 1
    then show ?thesis by (rule price_here_set)
  next
    case 2
    then show ?thesis using Cons.IH by auto
  qed
qed


section \<open>The classifier\<close>

text \<open>
  C3. Every line that contains a euro or a dollar sign is rejected by \<open>is_item_line\<close>: the
  symbol test, which lets through only word characters, whitespace, periods and commas,
  returns before the price pattern is tried. A line that matches the price pattern contains
  such a sign, so the branch of the price pattern never accepts anything.
\<close>

theorem currency_line_rejected:
  "(euro \<in> set text \<or> dollar \<in> set text \<longrightarrow> \<not> is_item_line U text)
   \<and> (price_search U text \<longrightarrow> \<not> is_item_line U text)"
proof -
  have "\<not> is_item_line U text" if "euro \<in> set text \<or> dollar \<in> set text"
    using has_symbol_currency [OF that] by (simp add: is_item_line_def)
  then show ?thesis using price_search_set by blast
qed

theorem currency_line_rejected_witness:
  "dollar \<in> set (str ''Eggs 12 2.49 $'')
   \<and> price_search table_only (str ''Eggs 12 2.49 $'')
   \<and> \<not> is_item_line table_only (str ''Eggs 12 2.49 $'')"
proof -
  have h: "price_search table_only (str ''Eggs 12 2.49 $'')"
    by (simp add: char_defs classifier_defs)
  have d: "dollar \<in> set (str ''Eggs 12 2.49 $'')"
    by (simp add: char_defs)
  show ?thesis
    using currency_line_rejected [of "str ''Eggs 12 2.49 $''" table_only] h d by blast
qed

text \<open>
  C4. Every line whose lower-cased form contains a word of the clutter vocabulary of
  logic.py as a substring is rejected by \<open>is_item_line\<close>; the classifier of test.py does
  the same for its own, shorter vocabulary.
\<close>

theorem keyword_exclusion:
  "(keyword \<in> set clutter_keywords \<and> lower U text = ps @ keyword @ ss
      \<longrightarrow> \<not> is_item_line U text)
   \<and> (keyword \<in> set test_clutter_keywords \<and> lower U text = ps @ keyword @ ss
      \<longrightarrow> \<not> test_is_item_line U text)"
proof -
  have "\<not> is_item_line U text"
    if "keyword \<in> set clutter_keywords" and "lower U text = ps @ keyword @ ss"
  proof -
    have "str_in keyword (lower U text)" using that(2) str_in_iff by blast
    then have "list_ex (\<lambda>keyword. str_in keyword (lower U text)) clutter_keywords"
      using that(1) unfolding list_ex_iff by blast
    then show ?thesis by (simp add: is_item_line_def)
  qed
  moreover have "\<not> test_is_item_line U text"
    if "keyword \<in> set test_clutter_keywords" and "lower U text = ps @ keyword @ ss"
  proof -
    have "str_in keyword (lower U text)" using that(2) str_in_iff by blast
    then have "list_ex (\<lambda>keyword. str_in keyword (lower U text)) test_clutter_keywords"
      using that(1) unfolding list_ex_iff by blast
    then show ?thesis by (simp add: test_is_item_line_def)
  qed
  ultimately show ?thesis by blast
qed

theorem keyword_exclusion_witness:
  "str ''total'' \<in> set clutter_keywords
   \<and> str ''total'' \<in> set test_clutter_keywords
   \<and> lower table_only (str ''Grand TOTAL now'')
       = str ''grand '' @ str ''total'' @ str '' now''
   \<and> \<not> is_item_line table_only (str ''Grand TOTAL now'')
   \<and> \<not> test_is_item_line table_only (str ''Grand TOTAL now'')"
proof -
  have k: "str ''total'' \<in> set clutter_keywords"
    by (simp add: clutter_keywords_def)
  have k': "str ''total'' \<in> set test_clutter_keywords"
    by (simp add: test_clutter_keywords_def)
  have l: "lower table_only (str ''Grand TOTAL now'')
      = str ''grand '' @ str ''total'' @ str '' now''"
    by (simp add: char_defs)
  show ?thesis
    using keyword_exclusion
      [of "str ''total''" table_only "str ''Grand TOTAL now''" "str ''grand ''" "str '' now''"]
      k k' l
    by blast
qed

text \<open>
  C5. A line in which the digits are more than 60 percent of all its characters (spaces
  and punctuation counted in the total) is rejected by \<open>is_item_line\<close>, and so is a line
  of fewer than 5 or of more than 50 characters.
\<close>

theorem digit_density_and_length_bounds:
  "((60 / 100 :: rat) * of_nat (length text) < of_nat (digit_count U text)
      \<longrightarrow> \<not> is_item_line U text)
   \<and> (length text < 5 \<or> 50 < length text \<longrightarrow> \<not> is_item_line U text)"
  by (simp add: is_item_line_def mult.commute)

theorem digit_density_and_length_bounds_witness:
  "(60 / 100 :: rat) * of_nat (length (str ''4 x 1234567''))
       < of_nat (digit_count table_only (str ''4 x 1234567''))
   \<and> \<not> is_item_line table_only (str ''4 x 1234567'')
   \<and> length (str ''Tea'') < 5
   \<and> \<not> is_item_line table_only (str ''Tea'')
   \<and> 50 < length (str ''Organic whole wheat sourdough bread with sunflower seeds'')
   \<and> \<not> is_item_line table_only
         (str ''Organic whole wheat sourdough bread with sunflower seeds'')"
proof -
  have d: "(60 / 100 :: rat) * of_nat (length (str ''4 x 1234567''))
      < of_nat (digit_count table_only (str ''4 x 1234567''))"
    by (simp add: char_defs digit_count_def)
  have s: "length (str ''Tea'') < 5"
    by (simp add: str_def)
  have l: "50 < length (str ''Organic whole wheat sourdough bread with sunflower seeds'')"
    by (simp add: str_def)
  show ?thesis
    using digit_density_and_length_bounds [of "str ''4 x 1234567''" table_only]
      digit_density_and_length_bounds [of "str ''Tea''" table_only]
      digit_density_and_length_bounds
        [of "str ''Organic whole wheat sourdough bread with sunflower seeds''" table_only]
      d s l
    by blast
qed

text \<open>
  The thresholds of test.py are others: more than two digits, fewer than 3 characters.
  It accepts lines that logic.py rejects for a keyword, for their digits or for their
  length.
\<close>

lemma test_is_item_line_thresholds:
  "test_is_item_line U (str ''discount'') \<and> \<not> is_item_line U (str ''discount'')"
  "test_is_item_line U (str ''a 12'') \<and> \<not> is_item_line U (str ''a 12'')"
  by (simp_all add: char_defs classifier_defs test_is_item_line_def test_clutter_keywords_def
      test_special_def)

text \<open>
  C2. A line with a price and a description, such as \<open>Milk 3.50\<euro>\<close>, is to be accepted. It
  matches the price pattern, has letters, and passes the keyword, digit and length tests;
  but the currency sign is a symbol for the symbol test, and \<open>is_item_line\<close> rejects it.
\<close>

theorem price_line_with_text_rejected:
  "price_search U (str ''Milk 3.50'' @ [euro])
   \<and> list_ex (isalpha U) (str ''Milk 3.50'' @ [euro])
   \<and> \<not> list_ex (\<lambda>keyword. str_in keyword (lower U (str ''Milk 3.50'' @ [euro])))
         clutter_keywords
   \<and> \<not> of_nat (length (str ''Milk 3.50'' @ [euro])) * (6 / 10 :: rat)
         < of_nat (digit_count U (str ''Milk 3.50'' @ [euro]))
   \<and> 5 \<le> length (str ''Milk 3.50'' @ [euro]) \<and> length (str ''Milk 3.50'' @ [euro]) \<le> 50
   \<and> has_symbol U (str ''Milk 3.50'' @ [euro])
   \<and> is_item_line U (str ''Milk 3.50'' @ [euro]) = False"
  by (simp add: char_defs classifier_defs)

section \<open>Case, whitespace and the normalizers\<close>

subsection \<open>Characters\<close>

lemma ascii_euro_tabled: "ascii_euro c \<Longrightarrow> tabled c"
  by (auto simp: ascii_euro_def tabled_def)

lemma ascii_euro_str_tabled: "ascii_euro_str s \<Longrightarrow> list_all tabled s"
  by (auto simp: ascii_euro_str_def list_all_iff ascii_euro_tabled)

lemma ascii_euro_lower_char: "ascii_euro c \<Longrightarrow> ascii_euro (lower_char c)"
  by (auto simp: ascii_euro_def lower_char_def isupper_def euro_def kelvin_def)

lemma ascii_euro_upper_char: "ascii_euro c \<Longrightarrow> ascii_euro (upper_char c)"
  by (auto simp: ascii_euro_def upper_char_def islower_def euro_def)

lemma isspace_lower_char: "isspace U (lower_char c) = isspace U c"
  by (auto simp: isspace_def lower_char_def isupper_def tabled_def kelvin_def euro_def
      napostrophe_def apostrophe_def)

lemma isspace_upper_char: "isspace U (upper_char c) = isspace U c"
  by (auto simp: isspace_def upper_char_def islower_def tabled_def kelvin_def euro_def
      napostrophe_def apostrophe_def)

lemma lower_lower_char: "lower_char (lower_char c) = lower_char c"
  by (auto simp: lower_char_def isupper_def kelvin_def)

lemma lower_upper_char: "lower_char (upper_char c) = lower_char c"
  by (auto simp: lower_char_def upper_char_def isupper_def islower_def kelvin_def)

lemma upper_lower_char: "ascii_euro c \<Longrightarrow> upper_char (lower_char c) = upper_char c"
  by (auto simp: lower_char_def upper_char_def isupper_def islower_def ascii_euro_def
      kelvin_def euro_def)

lemma upper_upper_char: "upper_char (upper_char c) = upper_char c"
  by (auto simp: upper_char_def islower_def)

lemma title_char_ascii_euro: "ascii_euro c \<Longrightarrow> title_char c = [upper_char c]"
  by (auto simp: title_char_def ascii_euro_def napostrophe_def euro_def)

subsection \<open>Strings of ASCII characters and euro signs\<close>

lemma lower_ascii_euro: "ascii_euro_str s \<Longrightarrow> lower U s = map lower_char s"
  by (simp add: lower_def ascii_euro_str_tabled)

lemma capitalize_ascii_euro: "ascii_euro_str s \<Longrightarrow> capitalize U s = capitalize_ascii s"
proof -
  assume a: "ascii_euro_str s"
  then have t: "list_all tabled s" by (rule ascii_euro_str_tabled)
  show ?thesis
  proof (cases s)
    case Nil
    then show ?thesis by (simp add: capitalize_def)
  next
    case (Cons c cs)
    then have "ascii_euro c" using a by (simp add: ascii_euro_str_def)
    then have "title_char c = [upper_char c]" by (rule title_char_ascii_euro)
    then show ?thesis using t Cons by (simp add: capitalize_def)
  qed
qed

lemma ascii_euro_str_lower: "ascii_euro_str s \<Longrightarrow> ascii_euro_str (lower U s)"
  by (auto simp: lower_ascii_euro) (auto simp: ascii_euro_str_def list_all_iff ascii_euro_lower_char)

lemma ascii_euro_str_capitalize: "ascii_euro_str s \<Longrightarrow> ascii_euro_str (capitalize U s)"
  by (cases s)
    (auto simp: capitalize_ascii_euro, auto simp: ascii_euro_str_def list_all_iff
      ascii_euro_lower_char ascii_euro_upper_char)

lemma ascii_euro_str_strip: "ascii_euro_str s \<Longrightarrow> ascii_euro_str (strip U s)"
proof -
  assume a: "ascii_euro_str s"
  have "set (strip U s) \<subseteq> set s"
  proof
    fix c assume "c \<in> set (strip U s)"
    then have "c \<in> set (dropWhile (isspace U) (rev (dropWhile (isspace U) s)))"
      by (simp add: strip_def)
    then have "c \<in> set (rev (dropWhile (isspace U) s))" by (rule set_dropWhileD)
    then have "c \<in> set (dropWhile (isspace U) s)" by simp
    then show "c \<in> set s" by (rule set_dropWhileD)
  qed
  then show ?thesis using a by (auto simp: ascii_euro_str_def list_all_iff)
qed

lemma map_lower_capitalize_ascii: "map lower_char (capitalize_ascii s) = map lower_char s"
  by (cases s) (simp_all add: lower_lower_char lower_upper_char)

lemma capitalize_ascii_map_lower:
  "ascii_euro_str s \<Longrightarrow> capitalize_ascii (map lower_char s) = capitalize_ascii s"
  by (cases s) (simp_all add: lower_lower_char upper_lower_char ascii_euro_str_def)

lemma capitalize_ascii_idem: "capitalize_ascii (capitalize_ascii s) = capitalize_ascii s"
  by (cases s) (simp_all add: lower_lower_char upper_upper_char)

lemma capitalize_ascii_Nil_iff: "capitalize_ascii s = [] \<longleftrightarrow> s = []"
  by (cases s) simp_all

lemma lower_lower: "ascii_euro_str s \<Longrightarrow> lower U (lower U s) = lower U s"
  using ascii_euro_str_lower [of s U] by (simp add: lower_ascii_euro lower_lower_char)

lemma lower_capitalize: "ascii_euro_str s \<Longrightarrow> lower U (capitalize U s) = lower U s"
  using ascii_euro_str_capitalize [of s U]
  by (simp add: lower_ascii_euro) (simp add: capitalize_ascii_euro map_lower_capitalize_ascii)

lemma capitalize_lower: "ascii_euro_str s \<Longrightarrow> capitalize U (lower U s) = capitalize U s"
  using ascii_euro_str_lower [of s U]
  by (simp add: capitalize_ascii_euro) (simp add: lower_ascii_euro capitalize_ascii_map_lower)

lemma capitalize_capitalize:
  "ascii_euro_str s \<Longrightarrow> capitalize U (capitalize U s) = capitalize U s"
  using ascii_euro_str_capitalize [of s U]
  by (simp add: capitalize_ascii_euro) (simp add: capitalize_ascii_euro capitalize_ascii_idem)

lemma capitalize_Nil_iff: "ascii_euro_str s \<Longrightarrow> capitalize U s = [] \<longleftrightarrow> s = []"
  by (simp add: capitalize_ascii_euro capitalize_ascii_Nil_iff)

subsection \<open>Stripped strings\<close>

lemma last_dropWhile: "dropWhile P xs \<noteq> [] \<Longrightarrow> last (dropWhile P xs) = last xs"
  by (induction xs) (auto split: if_splits)

lemma stripped_strip: "stripped U (strip U s)"
proof -
  define u where "u = dropWhile (isspace U) s"
  define v where "v = dropWhile (isspace U) (rev u)"
  have t: "strip U s = rev v" by (simp add: strip_def u_def v_def)
  show ?thesis
  proof (cases "v = []")
    case True
    then show ?thesis by (simp add: t stripped_def)
  next
    case False
    then have hv: "\<not> isspace U (hd v)" unfolding v_def by (rule hd_dropWhile)
    from False have "rev u \<noteq> []" unfolding v_def by auto
    then have un: "u \<noteq> []" by simp
    then have hu: "\<not> isspace U (hd u)" unfolding u_def by (rule hd_dropWhile)
    have "last v = last (rev u)" using False unfolding v_def by (rule last_dropWhile)
    then have "last v = hd u" using un by (simp add: last_rev)
    then show ?thesis using False hv hu by (simp add: t stripped_def hd_rev last_rev)
  qed
qed

lemma strip_stripped: "stripped U s \<Longrightarrow> strip U s = s"
proof (cases "s = []")
  case True
  then show ?thesis by (simp add: strip_def)
next
  case False
  assume "stripped U s"
  then have h: "\<not> isspace U (hd s)" and l: "\<not> isspace U (last s)"
    using False by (simp_all add: stripped_def)
  have 1: "dropWhile (isspace U) s = s" using h False by (cases s) simp_all
  have "rev s \<noteq> []" "\<not> isspace U (hd (rev s))" using False l by (simp_all add: hd_rev)
  then have 2: "dropWhile (isspace U) (rev s) = rev s" by (cases "rev s") simp_all
  show ?thesis by (simp add: strip_def 1 2)
qed

lemma stripped_map_lower: "stripped U s \<Longrightarrow> stripped U (map lower_char s)"
  by (auto simp: stripped_def hd_map last_map isspace_lower_char)

lemma stripped_capitalize_ascii: "stripped U s \<Longrightarrow> stripped U (capitalize_ascii s)"
proof (cases s)
  case Nil
  then show ?thesis by (simp add: stripped_def)
next
  case (Cons c cs)
  assume "stripped U s"
  then show ?thesis using Cons
    by (cases "cs = []")
      (auto simp: stripped_def last_map isspace_lower_char isspace_upper_char)
qed

lemma strip_capitalize_strip:
  "ascii_euro_str s \<Longrightarrow> strip U (capitalize U (strip U s)) = capitalize U (strip U s)"
  using ascii_euro_str_strip [of s U]
  by (intro strip_stripped) (simp add: capitalize_ascii_euro stripped_capitalize_ascii stripped_strip)

lemma strip_lower_strip:
  "ascii_euro_str s \<Longrightarrow> strip U (lower U (strip U s)) = lower U (strip U s)"
  using ascii_euro_str_strip [of s U]
  by (intro strip_stripped) (simp add: lower_ascii_euro stripped_map_lower stripped_strip)

subsection \<open>Canonical keys\<close>

lemma key_capitalize_strip:
  "ascii_euro_str s \<Longrightarrow> canonical_key U (capitalize U (strip U s)) = canonical_key U s"
  by (simp add: canonical_key_def strip_capitalize_strip lower_capitalize ascii_euro_str_strip)

lemma capitalize_key:
  "ascii_euro_str s \<Longrightarrow> capitalize U (canonical_key U s) = capitalize U (strip U s)"
  by (simp add: canonical_key_def capitalize_lower ascii_euro_str_strip)

lemma key_capitalize_key:
  "ascii_euro_str s \<Longrightarrow> canonical_key U (capitalize U (canonical_key U s)) = canonical_key U s"
  by (simp add: capitalize_key key_capitalize_strip)

lemma key_eq_capitalize_eq:
  "ascii_euro_str s \<Longrightarrow> ascii_euro_str t \<Longrightarrow> canonical_key U s = canonical_key U t \<Longrightarrow>
     capitalize U (strip U s) = capitalize U (strip U t)"
  by (metis capitalize_key)

subsection \<open>The loop of test.py keeps the first occurrence of every key\<close>

lemma clean_loop_uniq:
  "clean_loop U items cleaned seen =
     cleaned @ map (capitalize U) (uniq (map (canonical_key U) items) seen)"
  by (induction items arbitrary: cleaned seen) (simp_all add: Let_def canonical_key_def)

lemma set_uniq: "set (uniq xs seen) = set xs - seen"
  by (induction xs arbitrary: seen) auto

lemma distinct_uniq: "distinct (uniq xs seen)"
  by (induction xs arbitrary: seen) (auto simp: set_uniq)

lemma uniq_distinct: "distinct xs \<Longrightarrow> set xs \<inter> seen = {} \<Longrightarrow> uniq xs seen = xs"
  by (induction xs arbitrary: seen) auto

lemma test_clean_uniq:
  "test_clean_extracted_items U items =
     map (capitalize U) (uniq (map (canonical_key U) items) {})"
  by (simp add: test_clean_extracted_items_def clean_loop_uniq)

lemma keys_test_clean:
  assumes "list_all ascii_euro_str items"
  shows "map (canonical_key U) (test_clean_extracted_items U items)
    = uniq (map (canonical_key U) items) {}"
proof -
  have "\<forall>k \<in> set (uniq (map (canonical_key U) items) {}).
      canonical_key U (capitalize U k) = k"
    using assms by (auto simp: set_uniq key_capitalize_key list_all_iff)
  then have "map (canonical_key U \<circ> capitalize U) (uniq (map (canonical_key U) items) {})
      = uniq (map (canonical_key U) items) {}"
    by (simp add: map_idI)
  then show ?thesis by (simp add: test_clean_uniq)
qed

lemma set_clean:
  "set (clean_extracted_items U items)
    = (\<lambda>s. capitalize U (strip U s)) ` {s \<in> set items. strip U s \<noteq> []}"
  by (simp add: clean_extracted_items_def)

lemma set_test_clean:
  "list_all ascii_euro_str items \<Longrightarrow>
   set (test_clean_extracted_items U items) = (\<lambda>s. capitalize U (strip U s)) ` set items"
  by (auto simp: test_clean_uniq set_uniq capitalize_key image_iff list_all_iff)

lemma distinct_clean: "distinct (clean_extracted_items U items)"
  by (simp add: clean_extracted_items_def)

lemma inj_key_clean:
  "list_all ascii_euro_str items \<Longrightarrow>
   inj_on (canonical_key U) (set (clean_extracted_items U items))"
proof (rule inj_onI)
  fix e e'
  assume a: "list_all ascii_euro_str items"
    and e: "e \<in> set (clean_extracted_items U items)"
    and e': "e' \<in> set (clean_extracted_items U items)"
    and k: "canonical_key U e = canonical_key U e'"
  from e obtain s where s: "s \<in> set items" "e = capitalize U (strip U s)"
    unfolding set_clean by blast
  from e' obtain t where t: "t \<in> set items" "e' = capitalize U (strip U t)"
    unfolding set_clean by blast
  have as: "ascii_euro_str s" "ascii_euro_str t" using a s(1) t(1) by (simp_all add: list_all_iff)
  then have "canonical_key U s = canonical_key U t"
    using k s(2) t(2) by (simp add: key_capitalize_strip)
  then show "e = e'" using as s(2) t(2) key_eq_capitalize_eq by blast
qed

lemma ascii_euro_clean:
  "list_all ascii_euro_str items \<Longrightarrow> list_all ascii_euro_str (clean_extracted_items U items)"
  unfolding list_all_iff set_clean
  by (auto simp: ascii_euro_str_capitalize ascii_euro_str_strip)

lemma ascii_euro_test_clean:
  "list_all ascii_euro_str items \<Longrightarrow>
   list_all ascii_euro_str (test_clean_extracted_items U items)"
  unfolding list_all_iff
  by (auto simp: set_test_clean list_all_iff ascii_euro_str_capitalize ascii_euro_str_strip)


section \<open>Examples\<close>

text \<open>
  The strings of these examples are made of tabled characters, so the results are the same
  for every database \<open>U\<close>.
\<close>

lemma ascii_euro_items_example:
  "list_all ascii_euro_str [str ''milk'', str ''Milk'', str '' MILK '']"
  "list_all ascii_euro_str [str ''Bread'', str ''  bread'', str ''EGGS 6'', str ''   '']"
  by (simp_all add: ascii_euro_str_def ascii_euro_def str_def)

lemma milk_example:
  "clean_extracted_items U [str ''milk'', str ''Milk'', str '' MILK ''] = [str ''Milk'']"
  "test_clean_extracted_items U [str ''milk'', str ''Milk'', str '' MILK ''] = [str ''Milk'']"
  by (simp_all add: clean_extracted_items_sort test_clean_extracted_items_def char_defs Let_def)

lemma kelvin_example:
  "clean_extracted_items U [str ''kiwi'', kelvin # str ''iwi'']
     = [str ''Kiwi'', kelvin # str ''iwi'']"
  "canonical_key U (str ''Kiwi'') = str ''kiwi''"
  "canonical_key U (kelvin # str ''iwi'') = str ''kiwi''"
  by (simp_all add: clean_extracted_items_sort canonical_key_def char_defs)

lemma napostrophe_example:
  "clean_extracted_items U [[napostrophe]] = [[apostrophe, 78]]"
  "clean_extracted_items U [[apostrophe, 78]] = [[apostrophe, 110]]"
  "test_clean_extracted_items U [[napostrophe]] = [[apostrophe, 78]]"
  "test_clean_extracted_items U [[apostrophe, 78]] = [[apostrophe, 110]]"
  "test_clean_extracted_items U [[napostrophe], [apostrophe, 110]]
     = [[apostrophe, 78], [apostrophe, 110]]"
  "canonical_key U [apostrophe, 78] = [apostrophe, 110]"
  "canonical_key U [apostrophe, 110] = [apostrophe, 110]"
  by (simp_all add: clean_extracted_items_sort test_clean_extracted_items_def canonical_key_def
      char_defs Let_def)

section \<open>The normalizer\<close>

text \<open>
  C6, as the code has it. For every list of candidates made of ASCII characters and euro
  signs, no two entries of the list that the normalizer returns have the same canonical
  key (the entry trimmed and lower-cased): they are pairwise different under
  case-insensitive, trimmed equality. This holds for \<open>clean_extracted_items\<close> of logic.py
  and of test.py; both return the single entry \<open>Milk\<close> for the candidates \<open>milk\<close>,
  \<open>Milk\<close> and \<open> MILK \<close>.
\<close>

theorem deduplication_invariant:
  assumes "list_all ascii_euro_str items"
  shows "distinct (map (canonical_key U) (clean_extracted_items U items))
    \<and> distinct (map (canonical_key U) (test_clean_extracted_items U items))
    \<and> clean_extracted_items U [str ''milk'', str ''Milk'', str '' MILK ''] = [str ''Milk'']
    \<and> test_clean_extracted_items U [str ''milk'', str ''Milk'', str '' MILK '']
        = [str ''Milk'']"
proof -
  have "distinct (map (canonical_key U) (clean_extracted_items U items))"
    using assms by (simp add: distinct_map distinct_clean inj_key_clean)
  moreover have "distinct (map (canonical_key U) (test_clean_extracted_items U items))"
    using assms by (simp add: keys_test_clean distinct_uniq)
  ultimately show ?thesis using milk_example by blast
qed

theorem deduplication_invariant_witness:
  "list_all ascii_euro_str [str ''Bread'', str ''  bread'', str ''EGGS 6'', str ''   '']
   \<and> distinct (map (canonical_key table_only)
        (clean_extracted_items table_only
           [str ''Bread'', str ''  bread'', str ''EGGS 6'', str ''   '']))
   \<and> distinct (map (canonical_key table_only)
        (test_clean_extracted_items table_only
           [str ''Bread'', str ''  bread'', str ''EGGS 6'', str ''   '']))"
  using deduplication_invariant [OF ascii_euro_items_example(2), of table_only]
    ascii_euro_items_example(2)
  by blast

text \<open>
  Beyond ASCII the claim fails. The Kelvin sign is its own title case and has the lower
  case \<open>k\<close>: logic.py keeps \<open>Kiwi\<close> twice, once with the letter and once with the sign,
  and both entries have the key \<open>kiwi\<close>. The title case of U+0149 is U+02BC followed by
  \<open>N\<close>: test.py keeps an entry for the key U+0149 and one for the key U+02BC \<open>n\<close>, and
  both entries have the second key.
\<close>

theorem deduplication_counterexample:
  "clean_extracted_items table_only [str ''kiwi'', kelvin # str ''iwi'']
     = [str ''Kiwi'', kelvin # str ''iwi'']
   \<and> canonical_key table_only (str ''Kiwi'') = str ''kiwi''
   \<and> canonical_key table_only (kelvin # str ''iwi'') = str ''kiwi''
   \<and> \<not> distinct (map (canonical_key table_only)
        (clean_extracted_items table_only [str ''kiwi'', kelvin # str ''iwi'']))
   \<and> test_clean_extracted_items table_only [[napostrophe], [apostrophe, 110]]
     = [[apostrophe, 78], [apostrophe, 110]]
   \<and> \<not> distinct (map (canonical_key table_only)
        (test_clean_extracted_items table_only [[napostrophe], [apostrophe, 110]]))"
  by (simp add: kelvin_example napostrophe_example)

text \<open>
  C9, as the code has it. On candidates made of ASCII characters and euro signs the
  normalizer is idempotent: normalizing its own result changes nothing, for
  \<open>clean_extracted_items\<close> of logic.py and of test.py.
\<close>

theorem clean_extracted_items_idempotent:
  assumes "list_all ascii_euro_str items"
  shows "clean_extracted_items U (clean_extracted_items U items)
        = clean_extracted_items U items
    \<and> test_clean_extracted_items U (test_clean_extracted_items U items)
        = test_clean_extracted_items U items"
proof -
  let ?f = "\<lambda>s. capitalize U (strip U s)"
  let ?S = "?f ` {s \<in> set items. strip U s \<noteq> []}"
  have fixed: "strip U e = e \<and> e \<noteq> [] \<and> capitalize U e = e" if "e \<in> ?S" for e
  proof -
    from that obtain s where s: "s \<in> set items" "strip U s \<noteq> []" "e = ?f s" by blast
    have a: "ascii_euro_str s" using assms s(1) by (simp add: list_all_iff)
    then have b: "ascii_euro_str (strip U s)" by (rule ascii_euro_str_strip)
    show ?thesis
      using a b s(2) by (simp add: s(3) strip_capitalize_strip capitalize_capitalize
          capitalize_Nil_iff)
  qed
  have "?f ` {s \<in> ?S. strip U s \<noteq> []} = ?S"
  proof (intro equalityI subsetI)
    fix e assume "e \<in> ?f ` {s \<in> ?S. strip U s \<noteq> []}"
    then obtain s where "s \<in> ?S" and "e = ?f s" by blast
    then show "e \<in> ?S" using fixed [of s] by simp
  next
    fix e assume e: "e \<in> ?S"
    then have "e \<in> {s \<in> ?S. strip U s \<noteq> []}" "e = ?f e" using fixed [of e] by simp_all
    then show "e \<in> ?f ` {s \<in> ?S. strip U s \<noteq> []}" by (rule rev_image_eqI)
  qed
  then have "set (map ?f (filter (\<lambda>item. strip U item \<noteq> []) (clean_extracted_items U items)))
      = ?S"
    by (simp add: set_clean)
  then have 1: "clean_extracted_items U (clean_extracted_items U items)
      = clean_extracted_items U items"
    by (simp add: clean_extracted_items_def)
  have "uniq (uniq (map (canonical_key U) items) {}) {} = uniq (map (canonical_key U) items) {}"
    by (rule uniq_distinct) (simp_all add: distinct_uniq)
  then have 2: "test_clean_extracted_items U (test_clean_extracted_items U items)
      = test_clean_extracted_items U items"
    using assms
    by (simp add: test_clean_uniq [of U "test_clean_extracted_items U items"] keys_test_clean)
      (simp add: test_clean_uniq)
  show ?thesis using 1 2 by blast
qed

theorem clean_extracted_items_idempotent_witness:
  "list_all ascii_euro_str [str ''milk'', str ''Milk'', str '' MILK '']
   \<and> clean_extracted_items table_only
         (clean_extracted_items table_only [str ''milk'', str ''Milk'', str '' MILK ''])
       = clean_extracted_items table_only [str ''milk'', str ''Milk'', str '' MILK '']
   \<and> test_clean_extracted_items table_only
         (test_clean_extracted_items table_only [str ''milk'', str ''Milk'', str '' MILK ''])
       = test_clean_extracted_items table_only [str ''milk'', str ''Milk'', str '' MILK '']"
  using clean_extracted_items_idempotent [OF ascii_euro_items_example(1), of table_only]
    ascii_euro_items_example(1)
  by blast

text \<open>
  Beyond ASCII the claim fails. Both normalizers turn the one candidate U+0149 into
  U+02BC \<open>N\<close>, and that entry, normalized again, into U+02BC \<open>n\<close>.
\<close>

theorem idempotence_counterexample:
  "clean_extracted_items table_only [[napostrophe]] = [[apostrophe, 78]]
   \<and> clean_extracted_items table_only (clean_extracted_items table_only [[napostrophe]])
       = [[apostrophe, 110]]
   \<and> test_clean_extracted_items table_only [[napostrophe]] = [[apostrophe, 78]]
   \<and> test_clean_extracted_items table_only
         (test_clean_extracted_items table_only [[napostrophe]])
       = [[apostrophe, 110]]"
  by (simp add: napostrophe_example)

text \<open>
  C10, as the code has it. The list that \<open>clean_extracted_items\<close> of logic.py returns is
  in strictly ascending order of its entries themselves, the capitalized display forms,
  compared by code point. That need not be the order of their canonical keys: a capital
  letter sorts before an underscore and a lower-case letter after it.
\<close>

theorem clean_extracted_items_sorted:
  "sorted_wrt (<) (clean_extracted_items U items)"
  by (simp add: clean_extracted_items_def)

theorem canonical_key_order_counterexample:
  "is_item_line table_only (str ''bread'') \<and> is_item_line table_only (str ''_eggs'')
   \<and> clean_extracted_items table_only [str ''bread'', str ''_eggs'']
       = [str ''Bread'', str ''_eggs'']
   \<and> \<not> sorted (map (canonical_key table_only)
        (clean_extracted_items table_only [str ''bread'', str ''_eggs'']))"
  by (simp add: clean_extracted_items_sort canonical_key_def char_defs classifier_defs)

lemma capitalize_Cons:
  "ascii_euro_str s \<Longrightarrow> strip U s = c # cs \<Longrightarrow>
     capitalize U (strip U s) = upper_char c # map lower_char cs"
  using ascii_euro_str_strip [of s U] by (simp add: capitalize_ascii_euro)

text \<open>
  C7, as the code has it. For every list of candidates made of ASCII characters and euro
  signs, and every candidate in it whose trimmed form is not empty, both normalizers hold
  the trimmed candidate with its first character upper-cased and all its other characters
  lower-cased, and no other entry with the canonical key of that candidate; every entry
  comes from a candidate in this way (test.py also keeps the empty entry of a blank
  candidate). All candidates of one key give the same entry, so which of them came first
  makes no difference to it.
\<close>

theorem surface_form_lower_cased:
  assumes "list_all ascii_euro_str items"
  shows "(\<forall>s\<in>set items. \<forall>c cs. strip U s = c # cs \<longrightarrow>
            upper_char c # map lower_char cs \<in> set (clean_extracted_items U items)
          \<and> upper_char c # map lower_char cs \<in> set (test_clean_extracted_items U items)
          \<and> (\<forall>e \<in> set (clean_extracted_items U items)
                  \<union> set (test_clean_extracted_items U items).
               canonical_key U e = canonical_key U s \<longrightarrow>
               e = upper_char c # map lower_char cs))
        \<and> (\<forall>e \<in> set (clean_extracted_items U items).
              \<exists>s\<in>set items. strip U s \<noteq> [] \<and> e = capitalize U (strip U s))
        \<and> (\<forall>e \<in> set (test_clean_extracted_items U items).
              \<exists>s\<in>set items. e = capitalize U (strip U s))"
proof -
  note st = set_test_clean [OF assms]
  have ae: "ascii_euro_str s" if "s \<in> set items" for s
    using assms that by (simp add: list_all_iff)
  have only: "e = capitalize U (strip U s)"
    if "e \<in> set (clean_extracted_items U items) \<union> set (test_clean_extracted_items U items)"
      and "s \<in> set items" and "canonical_key U e = canonical_key U s" for e s
  proof -
    from that(1) obtain s' where s': "s' \<in> set items" "e = capitalize U (strip U s')"
      unfolding set_clean st by blast
    have "canonical_key U s' = canonical_key U s"
      using that(3) ae [OF s'(1)] by (simp add: s'(2) key_capitalize_strip)
    then show ?thesis
      using key_eq_capitalize_eq [OF ae [OF s'(1)] ae [OF that(2)]] s'(2) by simp
  qed
  have 1: "upper_char c # map lower_char cs \<in> set (clean_extracted_items U items)
       \<and> upper_char c # map lower_char cs \<in> set (test_clean_extracted_items U items)
       \<and> (\<forall>e \<in> set (clean_extracted_items U items)
               \<union> set (test_clean_extracted_items U items).
             canonical_key U e = canonical_key U s \<longrightarrow>
             e = upper_char c # map lower_char cs)"
    if s: "s \<in> set items" and c: "strip U s = c # cs" for s c cs
  proof -
    have f: "capitalize U (strip U s) = upper_char c # map lower_char cs"
      using ae [OF s] c by (rule capitalize_Cons)
    have "strip U s \<noteq> []" using c by simp
    then have "capitalize U (strip U s) \<in> set (clean_extracted_items U items)"
      unfolding set_clean using s by blast
    moreover have "capitalize U (strip U s) \<in> set (test_clean_extracted_items U items)"
      unfolding st using s by blast
    ultimately show ?thesis using only [of _ s] s unfolding f by blast
  qed
  have 2: "\<forall>e \<in> set (clean_extracted_items U items).
              \<exists>s\<in>set items. strip U s \<noteq> [] \<and> e = capitalize U (strip U s)"
    unfolding set_clean by blast
  have 3: "\<forall>e \<in> set (test_clean_extracted_items U items).
              \<exists>s\<in>set items. e = capitalize U (strip U s)"
    unfolding st by blast
  show ?thesis using 1 2 3 by blast
qed

theorem surface_form_lower_cased_witness:
  "list_all ascii_euro_str [str ''milk'', str ''Milk'', str '' MILK '']
   \<and> str '' MILK '' \<in> set [str ''milk'', str ''Milk'', str '' MILK '']
   \<and> strip table_only (str '' MILK '') = 77 # str ''ILK''
   \<and> str ''Milk''
       \<in> set (clean_extracted_items table_only [str ''milk'', str ''Milk'', str '' MILK ''])
   \<and> str ''Milk''
       \<in> set (test_clean_extracted_items table_only
           [str ''milk'', str ''Milk'', str '' MILK ''])"
proof -
  have m: "str '' MILK '' \<in> set [str ''milk'', str ''Milk'', str '' MILK '']"
    by simp
  have t: "strip table_only (str '' MILK '') = 77 # str ''ILK''"
    by (simp add: char_defs)
  have e: "upper_char 77 # map lower_char (str ''ILK'') = str ''Milk''"
    by (simp add: char_defs)
  show ?thesis
    using surface_form_lower_cased [OF ascii_euro_items_example(1), of table_only]
      ascii_euro_items_example(1) m t e
    by metis
qed

text \<open>
  The candidate \<open>MILK\<close> is kept as \<open>Milk\<close>: the characters after the first are not left
  as they were. And beyond ASCII one key can have two entries in logic.py: \<open>Kiwi\<close> with
  the letter and with the Kelvin sign.
\<close>

theorem surface_form_counterexample:
  "strip table_only (str ''MILK'') = str ''MILK''
   \<and> clean_extracted_items table_only [str ''MILK''] = [str ''Milk'']
   \<and> test_clean_extracted_items table_only [str ''MILK''] = [str ''Milk'']
   \<and> upper_char (hd (str ''MILK'')) # tl (str ''MILK'')
       \<notin> set (clean_extracted_items table_only [str ''MILK''])
   \<and> upper_char (hd (str ''MILK'')) # tl (str ''MILK'')
       \<notin> set (test_clean_extracted_items table_only [str ''MILK''])
   \<and> clean_extracted_items table_only [str ''kiwi'', kelvin # str ''iwi'']
       = [str ''Kiwi'', kelvin # str ''iwi'']
   \<and> canonical_key table_only (str ''Kiwi'') = canonical_key table_only (kelvin # str ''iwi'')"
  by (simp add: kelvin_example)
    (simp add: clean_extracted_items_sort test_clean_extracted_items_def char_defs Let_def)

section \<open>The deposit\<close>

lemma round_half_even_of_int: "round_half_even (of_int k) = k"
  by (simp add: round_half_even_def)

lemma round2_quarters: "round2 (of_nat n * pfand_per_bottle) = of_nat n * pfand_per_bottle"
proof -
  have "of_nat n * pfand_per_bottle * 100 = (of_int (25 * int n) :: rat)"
    by (simp add: pfand_per_bottle_def)
  then have "round_half_even (of_nat n * pfand_per_bottle * 100) = 25 * int n"
    by (simp only: round_half_even_of_int)
  then show ?thesis by (simp add: round2_def pfand_per_bottle_def)
qed

lemma is_bottle_iff:
  "is_bottle U item \<longleftrightarrow>
     (\<exists>keyword\<in>set bottle_keywords. \<exists>ps ss. lower U item = ps @ keyword @ ss)"
  by (simp add: is_bottle_def list_ex_iff str_in_iff)

text \<open>
  C8. \<open>calculate_pfand\<close> returns the number of items that contain a word of the bottle
  vocabulary as a case-insensitive substring (the word occurs in the lower-cased item),
  times 0.25, rounded to two decimals; the rounding changes nothing. The deposit of no
  items is 0, that of \<open>Coca cola 500ml\<close>, \<open>Bread\<close> and \<open>Pepsi bottle\<close> is 0.50, and no
  deposit is negative.
\<close>

theorem calculate_pfand_formula:
  "calculate_pfand U items =
     round2 (of_nat (length (filter (\<lambda>item. \<exists>keyword\<in>set bottle_keywords.
        \<exists>ps ss. lower U item = ps @ keyword @ ss) items)) * (25 / 100))
   \<and> calculate_pfand U items =
     of_nat (length (filter (\<lambda>item. \<exists>keyword\<in>set bottle_keywords.
        \<exists>ps ss. lower U item = ps @ keyword @ ss) items)) * (25 / 100)
   \<and> calculate_pfand U [] = 0
   \<and> calculate_pfand U [str ''Coca cola 500ml'', str ''Bread'', str ''Pepsi bottle'']
       = 50 / 100
   \<and> 0 \<le> calculate_pfand U items"
proof -
  have n: "bottle_count U items = length (filter (\<lambda>item. \<exists>keyword\<in>set bottle_keywords.
        \<exists>ps ss. lower U item = ps @ keyword @ ss) items)"
    unfolding bottle_count_def
    by (rule arg_cong [where f = length], rule filter_cong) (simp_all add: is_bottle_iff)
  have 1: "calculate_pfand U items = round2 (of_nat (bottle_count U items) * (25 / 100))"
    by (simp add: calculate_pfand_def pfand_per_bottle_def)
  have 2: "calculate_pfand U items = of_nat (bottle_count U items) * (25 / 100)"
    using round2_quarters [of "bottle_count U items"]
    by (simp add: calculate_pfand_def pfand_per_bottle_def)
  have 3: "calculate_pfand U [] = 0"
    by (simp add: pfand_defs)
  have 4: "calculate_pfand U [str ''Coca cola 500ml'', str ''Bread'', str ''Pepsi bottle'']
      = 50 / 100"
    by (simp add: pfand_defs char_defs Let_def)
  have 5: "0 \<le> calculate_pfand U items" unfolding 2 by simp
  show ?thesis using 1 2 3 4 5 unfolding n by blast
qed

section \<open>The pipeline\<close>

text \<open>
  C1. The six lines of the end-to-end example are to give the items \<open>Bread\<close> and the
  Coca Cola line, and a deposit of 0.25. In the code the Coca Cola line ends in a euro sign
  and is rejected with the other priced lines; \<open>Bread\<close> is the only item and the deposit
  is 0. The deposit of the two expected items would have been 0.25.
\<close>

theorem receipt_example_result:
  "filter (is_item_line U)
     [str ''STORE XYZ'', str ''Milk 2%  1.99'' @ [euro], str ''Bread'',
      str ''Coca Cola 0.5L 1.20'' @ [euro], str ''TOTAL 3.19'' @ [euro], str ''THANK YOU'']
     = [str ''Bread'']
   \<and> receipt_result U
     [str ''STORE XYZ'', str ''Milk 2%  1.99'' @ [euro], str ''Bread'',
      str ''Coca Cola 0.5L 1.20'' @ [euro], str ''TOTAL 3.19'' @ [euro], str ''THANK YOU'']
     = ([str ''Bread''], 0)
   \<and> calculate_pfand U [str ''Bread'', str ''Coca cola 0.5l 1.20'' @ [euro]] = 25 / 100"
  by (simp add: receipt_result_def process_lines_def raw_items_def clean_extracted_items_sort
      pfand_defs char_defs classifier_defs Let_def)

end
